theory Spec2Isabelle
  imports Complex_Main
begin

section \<open>The symplectic pulse-optimisation notebook\<close>

text \<open>
  The program is the notebook \<^verbatim>\<open>examples/control-pulseoptim-symplectic.ipynb\<close>: a
  straight-line script that builds its matrices, a handful of scalar settings and
  a file-name extension, hands them to \<^verbatim>\<open>qutip.control.pulseoptim.optimize_pulse\<close>,
  prints the statistics of the returned result and plots the initial and the final
  control amplitudes.

  Every notebook variable is assigned exactly once, so each one is a constant of the
  model, under its own name. What the notebook computes itself (list literals,
  \<^verbatim>\<open>len\<close>, \<^verbatim>\<open>range\<close>, \<^verbatim>\<open>str.format\<close>, array indexing, \<^verbatim>\<open>np.hstack\<close>, the two
  loops) is modelled as functions. The routines of the libraries it calls are not part
  of the repository. The four matrix routines (\<^verbatim>\<open>identity\<close>, \<^verbatim>\<open>calc_omega\<close>, \<^verbatim>\<open>dot\<close>,
  \<^verbatim>\<open>expm\<close>) are modelled by what they compute; the optimiser \<^verbatim>\<open>optimize_pulse\<close> stays
  a parameter: it is the field of a record \<open>externals\<close>, and a run of the notebook takes
  that record as its argument.
\<close>

subsection \<open>Values\<close>

text \<open>
  A number is a Python \<^verbatim>\<open>int\<close> (\<open>int\<close>) or a \<^verbatim>\<open>float\<close>. The notebook does no
  arithmetic on floats: it writes float literals and passes them on. A scalar float
  and an entry of an amplitude array are therefore represented by the rational the
  literal denotes (\<^verbatim>\<open>1e-10\<close> is \<open>1 / 10 ^ 10\<close>). The entries of an operator matrix
  are real numbers (\<^verbatim>\<open>0.5\<close> is \<open>1/2\<close>), because the target operator is a matrix
  exponential, whose entries are not rational. A two-dimensional array built by \<^verbatim>\<open>np.array\<close>
  from a nested list literal is the list of its rows; the integers in it (0 and 1) are
  converted to floats exactly.
\<close>

type_synonym matrix = "real list list"

definition np_array :: "real list list \<Rightarrow> matrix" where
  "np_array rws = rws"

text \<open>A \<^verbatim>\<open>Qobj\<close> wraps the array it is built from.\<close>

datatype qobj = Qobj (data: matrix)

text \<open>The exceptions the model distinguishes. \<open>LibraryError\<close> is any exception
  raised inside the optimiser, with its message.\<close>

datatype error = IndexError | ValueError | LibraryError string | NotModelled

subsection \<open>Text formatting (\<^verbatim>\<open>str\<close> and \<^verbatim>\<open>str.format\<close>)\<close>

definition digit_char :: "nat \<Rightarrow> char" where
  "digit_char d = ''0123456789'' ! d"

function str_nat :: "nat \<Rightarrow> string" where
  "str_nat n = (if n < 10 then [digit_char n] else str_nat (n div 10) @ [digit_char (n mod 10)])"
  by pat_completeness auto
termination
  by (relation "measure (\<lambda>n. n)") auto

declare str_nat.simps [simp del]

text \<open>\<^verbatim>\<open>str(i)\<close> for an integer: decimal digits, a minus sign for a negative one.\<close>

definition str_int :: "int \<Rightarrow> string" where
  "str_int i = (if i < 0 then CHR ''-'' # str_nat (nat (- i)) else str_nat (nat i))"

text \<open>The arguments the notebook gives to the \<^verbatim>\<open>format\<close> call that is evaluated here
  are strings and integers.\<close>

datatype fmt_arg = ArgStr string | ArgInt int

fun py_str :: "fmt_arg \<Rightarrow> string" where
  "py_str (ArgStr s) = s"
| "py_str (ArgInt i) = str_int i"

definition emit :: "string \<Rightarrow> error + string \<Rightarrow> error + string" where
  "emit s r = (case r of Inl e \<Rightarrow> Inl e | Inr t \<Rightarrow> Inr (s @ t))"

text \<open>
  \<^verbatim>\<open>template.format(*args)\<close> for templates whose replacement fields are all the
  automatic field \<^verbatim>\<open>{}\<close>. \<^verbatim>\<open>{{\<close> and \<^verbatim>\<open>}}\<close> are escaped braces; a lone brace is a
  \<^verbatim>\<open>ValueError\<close>; a field with no argument left is an \<^verbatim>\<open>IndexError\<close>; surplus
  arguments are ignored. Any other replacement field (a name, an index, a conversion
  or a format specification) is outside the model: \<open>NotModelled\<close>.
\<close>

fun py_format :: "string \<Rightarrow> fmt_arg list \<Rightarrow> error + string" where
  "py_format [] args = Inr []"
| "py_format [c] args =
     (if c = CHR ''{'' \<or> c = CHR ''}'' then Inl ValueError else Inr [c])"
| "py_format (c # d # cs) args =
     (if c = CHR ''{'' then
        (if d = CHR ''{'' then emit ''{'' (py_format cs args)
         else if d = CHR ''}'' then
           (case args of
              [] \<Rightarrow> Inl IndexError
            | x # xs \<Rightarrow> emit (py_str x) (py_format cs xs))
         else Inl NotModelled)
      else if c = CHR ''}'' then
        (if d = CHR ''}'' then emit ''}'' (py_format cs args) else Inl ValueError)
      else emit [c] (py_format (d # cs) args))"

subsection \<open>The physics (cell 6)\<close>

definition example_name :: string where
  "example_name = ''Symplectic''"

definition w1 :: int where "w1 = 1"
definition w2 :: int where "w2 = 1"
definition g1 :: real where "g1 = 1 / 2"

definition A0 :: qobj where
  "A0 = Qobj (np_array [[of_int w1, 0, g1, 0],
                        [0, of_int w1, 0, g1],
                        [g1, 0, of_int w2, 0],
                        [0, g1, 0, of_int w2]])"

definition Ac :: qobj where
  "Ac = Qobj (np_array [[1, 0, 0, 0],
                        [0, 1, 0, 0],
                        [0, 0, 0, 0],
                        [0, 0, 0, 0]])"

definition ctrls :: "qobj list" where
  "ctrls = [Ac]"

definition n_ctrls :: int where
  "n_ctrls = int (length ctrls)"


subsection \<open>The library routines the notebook calls\<close>

text \<open>
  \<^verbatim>\<open>optimize_pulse\<close> receives its first six arguments by position and the rest by
  keyword; the record keeps that order and those keywords. \<^verbatim>\<open>out_file_ext\<close> is a
  string or \<^verbatim>\<open>None\<close>.
\<close>

datatype log_level_t = INFO | WARN

record optim_args =
  arg0 :: qobj
  arg1 :: "qobj list"
  arg2 :: qobj
  arg3 :: qobj
  arg4 :: int
  arg5 :: int
  kw_fid_err_targ :: rat
  kw_min_grad :: rat
  kw_max_iter :: int
  kw_max_wall_time :: int
  kw_dyn_type :: string
  kw_out_file_ext :: "string option"
  kw_init_pulse_type :: string
  kw_log_level :: log_level_t
  kw_gen_stats :: bool

text \<open>A two-dimensional \<^verbatim>\<open>ndarray\<close> returned by the library: its number of columns
  and its rows. Its shape is \<open>(length (rows A), ncols A)\<close>; an array with no row still
  has a number of columns.\<close>

record ndarray =
  ncols :: nat
  rows :: "rat list list"

definition wf_ndarray :: "ndarray \<Rightarrow> bool" where
  "wf_ndarray A = list_all (\<lambda>r. length r = ncols A) (rows A)"

datatype stats = Stats string

text \<open>The attributes of the optimiser's result that the notebook reads.\<close>

record optim_result =
  stats :: stats
  evo_full_final :: qobj
  fid_err :: rat
  grad_norm_final :: rat
  termination_reason :: string
  num_iter :: int
  wall_time :: rat
  time :: "rat list"
  initial_amps :: ndarray
  final_amps :: ndarray

text \<open>The optimiser: it either returns a result or raises.\<close>

record externals =
  optimize_pulse :: "optim_args \<Rightarrow> error + optim_result"

text \<open>Modelled from the spec: \<^verbatim>\<open>qutip.identity\<close> is not in the repository.
  \<^verbatim>\<open>identity(n)\<close> is the identity operator of dimension \<open>n\<close>, an \<open>n \<times> n\<close> matrix; the
  recorded output of cell 16 prints \<^verbatim>\<open>identity(4)\<close> as this matrix.\<close>

definition eye :: "nat \<Rightarrow> matrix" where
  "eye n = map (\<lambda>i. map (\<lambda>j. if i = j then 1 else 0) [0..<n]) [0..<n]"

definition identity :: "nat \<Rightarrow> qobj" where
  "identity n = Qobj (eye n)"

text \<open>Modelled from the spec: \<^verbatim>\<open>qutip.control.symplectic.calc_omega\<close> is not in the
  repository. \<^verbatim>\<open>calc_omega(n)\<close> is the symplectic structure matrix of \<open>n\<close> oscillators:
  the \<open>2n \<times> 2n\<close> matrix with the block \<open>[[0, 1], [-1, 0]]\<close> repeated along its
  diagonal.\<close>

definition omega_entry :: "nat \<Rightarrow> nat \<Rightarrow> real" where
  "omega_entry i j =
     (if even i \<and> j = i + 1 then 1 else if odd i \<and> j + 1 = i then - 1 else 0)"

definition calc_omega :: "nat \<Rightarrow> matrix" where
  "calc_omega n = map (\<lambda>i. map (\<lambda>j. omega_entry i j) [0..<2 * n]) [0..<2 * n]"

text \<open>The width of a matrix given by its rows (0 for a matrix with no row).\<close>

definition row_width :: "matrix \<Rightarrow> nat" where
  "row_width B = (case B of [] \<Rightarrow> 0 | r # _ \<Rightarrow> length r)"

text \<open>Modelled from the spec: \<^verbatim>\<open>numpy.ndarray.dot\<close> is not in the repository. For two
  matrices \<^verbatim>\<open>A.dot(B)\<close> is the matrix product: entry \<open>(i, j)\<close> is the sum of the products
  of row \<open>i\<close> of \<open>A\<close> with column \<open>j\<close> of \<open>B\<close>. It is modelled for operands whose shapes
  fit, as the two \<open>4 \<times> 4\<close> operands of the notebook do.\<close>

definition dot :: "matrix \<Rightarrow> matrix \<Rightarrow> matrix" where
  "dot A B =
     map (\<lambda>r. map (\<lambda>j. sum_list (map2 (*) r (map (\<lambda>row. row ! j) B))) [0..<row_width B]) A"

text \<open>Modelled from the spec: \<^verbatim>\<open>Qobj.expm\<close> is not in the repository. It is the matrix
  exponential of the operator: entry \<open>(i, j)\<close> of \<open>exp M\<close> is the sum of the series of
  the entries \<open>(i, j)\<close> of \<open>M ^ k / k!\<close>. The library computes it in floating point; the
  model takes its exact value.\<close>

fun mat_pow :: "matrix \<Rightarrow> nat \<Rightarrow> matrix" where
  "mat_pow M 0 = eye (length M)"
| "mat_pow M (Suc k) = dot M (mat_pow M k)"

definition exp_entry :: "matrix \<Rightarrow> nat \<Rightarrow> nat \<Rightarrow> real" where
  "exp_entry M i j = (\<Sum>k. mat_pow M k ! i ! j / fact k)"

definition expm :: "qobj \<Rightarrow> qobj" where
  "expm q = Qobj (map (\<lambda>i. map (\<lambda>j. exp_entry (data q) i j) [0..<length (data q)])
                    [0..<length (data q)])"

subsection \<open>The physics, continued (cell 6)\<close>

definition initial :: qobj where
  "initial = identity 4"

definition a :: int where "a = 1"

definition Ag :: matrix where
  "Ag = np_array [[0, 0, of_int a, 0],
                  [0, 0, 0, of_int a],
                  [of_int a, 0, 0, 0],
                  [0, of_int a, 0, 0]]"

definition Sg :: qobj where
  "Sg = expm (Qobj (dot (calc_omega 2) Ag))"

subsection \<open>Time slicing, termination conditions, pulse type, file extension
  (cells 4 to 14)\<close>

definition log_level :: log_level_t where "log_level = INFO"

definition n_ts :: int where "n_ts = 1000"
definition evo_time :: int where "evo_time = 10"

definition fid_err_targ :: rat where "fid_err_targ = 1 / 10 ^ 10"
definition max_iter :: int where "max_iter = 500"
definition max_wall_time :: int where "max_wall_time = 30"
definition min_grad :: rat where "min_grad = 1 / 10 ^ 20"

definition p_type :: string where "p_type = ''ZERO''"

definition f_ext :: "error + string" where
  "f_ext = py_format ''{}_n_ts{}_ptype{}.txt''
             [ArgStr example_name, ArgInt n_ts, ArgStr p_type]"

subsection \<open>The optimiser call (cell 16)\<close>

text \<open>The arguments of the call, given the string \<open>fx\<close> that \<open>f_ext\<close> holds.\<close>

definition cell16_args :: "string \<Rightarrow> optim_args" where
  "cell16_args fx =
     \<lparr> arg0 = A0, arg1 = ctrls, arg2 = initial, arg3 = Sg,
       arg4 = n_ts, arg5 = evo_time,
       kw_fid_err_targ = fid_err_targ, kw_min_grad = min_grad,
       kw_max_iter = max_iter, kw_max_wall_time = max_wall_time,
       kw_dyn_type = ''SYMPL'',
       kw_out_file_ext = Some fx, kw_init_pulse_type = p_type,
       kw_log_level = log_level, kw_gen_stats = True \<rparr>"

subsection \<open>Array indexing and \<^verbatim>\<open>np.hstack\<close>\<close>

text \<open>An index \<open>i\<close> into an axis of size \<open>n\<close>: a negative index counts from the end,
  and an index outside \<open>-n \<le> i < n\<close> raises \<^verbatim>\<open>IndexError\<close>.\<close>

definition norm_index :: "nat \<Rightarrow> int \<Rightarrow> error + nat" where
  "norm_index n i =
     (let k = (if i < 0 then i + int n else i)
      in if 0 \<le> k \<and> k < int n then Inr (nat k) else Inl IndexError)"

text \<open>\<^verbatim>\<open>A[:, j]\<close>: the column \<open>j\<close>, a one-dimensional array with one entry per row.\<close>

definition get_col :: "ndarray \<Rightarrow> int \<Rightarrow> error + rat list" where
  "get_col A j =
     (case norm_index (ncols A) j of
        Inl e \<Rightarrow> Inl e
      | Inr k \<Rightarrow> Inr (map (\<lambda>r. r ! k) (rows A)))"

text \<open>\<^verbatim>\<open>A[i, j]\<close>: one entry.\<close>

definition get_item :: "ndarray \<Rightarrow> int \<Rightarrow> int \<Rightarrow> error + rat" where
  "get_item A i j =
     (case norm_index (length (rows A)) i of
        Inl e \<Rightarrow> Inl e
      | Inr k \<Rightarrow>
          (case norm_index (ncols A) j of
             Inl e \<Rightarrow> Inl e
           | Inr l \<Rightarrow> Inr (rows A ! k ! l)))"

text \<open>\<^verbatim>\<open>np.hstack((v, x))\<close> for a one-dimensional array \<open>v\<close> and a scalar \<open>x\<close>: the
  scalar becomes an array of one entry and the two are concatenated.\<close>

definition hstack :: "rat list \<Rightarrow> rat \<Rightarrow> rat list" where
  "hstack v x = v @ [x]"

text \<open>\<^verbatim>\<open>range(n)\<close>.\<close>

definition py_range :: "int \<Rightarrow> int list" where
  "py_range n = [0..n - 1]"

text \<open>The second argument of \<^verbatim>\<open>step\<close>:
  \<^verbatim>\<open>np.hstack((amps[:, j], amps[-1, j]))\<close>, its parts evaluated left to right.\<close>

definition step_amps :: "ndarray \<Rightarrow> int \<Rightarrow> error + rat list" where
  "step_amps amps j =
     (case get_col amps j of
        Inl e \<Rightarrow> Inl e
      | Inr v \<Rightarrow>
          (case get_item amps (- 1) j of
             Inl e \<Rightarrow> Inl e
           | Inr x \<Rightarrow> Inr (hstack v x)))"

subsection \<open>What a run does: reporting and plotting (cells 18 to 22)\<close>

text \<open>
  The calls a run makes for their effect are recorded as events, in order. A printed
  line is recorded as its template and its unformatted arguments (how a float or a
  \<^verbatim>\<open>Qobj\<close> is rendered as text is not modelled).
\<close>

datatype axis = Ax1 | Ax2

datatype pyval = PyStr string | PyInt int | PyFloat rat | PyQobj qobj | PyTimedelta rat

datatype event =
    OptimizePulse optim_args
  | StatsReport stats
  | Print string "pyval list"
  | Figure
  | AddSubplot axis int int int
  | SetTitle axis string
  | SetXlabel axis string
  | SetYlabel axis string
  | Step axis "rat list" "rat list" string
  | TightLayout
  | Show
  | VersionTable

definition cell18 :: "optim_result \<Rightarrow> event list" where
  "cell18 result =
     [StatsReport (stats result),
      Print (''Final evolution'' @ [CHR 0x0A] @ ''{}'' @ [CHR 0x0A]) [PyQobj (evo_full_final result)],
      Print ''********* Summary *****************'' [],
      Print ''Final fidelity error {}'' [PyFloat (fid_err result)],
      Print ''Final gradient normal {}'' [PyFloat (grad_norm_final result)],
      Print ''Terminated due to {}'' [PyStr (termination_reason result)],
      Print ''Number of iterations {}'' [PyInt (num_iter result)],
      Print ''Completed in {} HH:MM:SS.US'' [PyTimedelta (wall_time result)]]"

text \<open>One plotting loop, \<^verbatim>\<open>for j in range(n_ctrls): ax.step(...)\<close>, over the list of
  its indices: it stops at the first exception.\<close>

fun step_loop :: "axis \<Rightarrow> rat list \<Rightarrow> ndarray \<Rightarrow> int list \<Rightarrow> event list \<times> error option" where
  "step_loop ax t amps [] = ([], None)"
| "step_loop ax t amps (j # js) =
     (case step_amps amps j of
        Inl e \<Rightarrow> ([], Some e)
      | Inr ys \<Rightarrow>
          (case step_loop ax t amps js of
             (evs, r) \<Rightarrow> (Step ax t ys ''post'' # evs, r)))"

definition subplot_head :: "axis \<Rightarrow> int \<Rightarrow> string \<Rightarrow> event list" where
  "subplot_head ax k title =
     [AddSubplot ax 2 1 k, SetTitle ax title, SetXlabel ax ''Time'',
      SetYlabel ax ''Control amplitude'']"

definition cell20 :: "optim_result \<Rightarrow> event list \<times> error option" where
  "cell20 result =
     (let head1 = Figure # subplot_head Ax1 1 ''Initial Control amps''
      in case step_loop Ax1 (time result) (initial_amps result) (py_range n_ctrls) of
           (ev1, Some e) \<Rightarrow> (head1 @ ev1, Some e)
         | (ev1, None) \<Rightarrow>
             (let head2 = subplot_head Ax2 2 ''Optimised Control Amplitudes''
              in case step_loop Ax2 (time result) (final_amps result) (py_range n_ctrls) of
                   (ev2, Some e) \<Rightarrow> (head1 @ ev1 @ head2 @ ev2, Some e)
                 | (ev2, None) \<Rightarrow> (head1 @ ev1 @ head2 @ ev2 @ [TightLayout, Show], None)))"

definition cell22 :: "event list" where
  "cell22 = [VersionTable]"

subsection \<open>A run of the notebook\<close>

text \<open>
  The cells run top to bottom and the run stops at the first exception, which is then
  the outcome of the run: no cell contains a \<^verbatim>\<open>try\<close>. A run is the list of its events,
  the exception it ended with (if any) and the value bound to the variable \<^verbatim>\<open>result\<close>
  (\<open>None\<close> while it is unbound).
\<close>

record run =
  events :: "event list"
  raised :: "error option"
  result :: "optim_result option"

definition notebook :: "externals \<Rightarrow> run" where
  "notebook ext =
     (case f_ext of
        Inl e \<Rightarrow> \<lparr> events = [], raised = Some e, result = None \<rparr>
      | Inr fx \<Rightarrow>
          (let args = cell16_args fx
           in case optimize_pulse ext args of
                Inl e \<Rightarrow> \<lparr> events = [OptimizePulse args], raised = Some e, result = None \<rparr>
              | Inr res \<Rightarrow>
                  (case cell20 res of
                     (plt, Some e) \<Rightarrow>
                       \<lparr> events = OptimizePulse args # cell18 res @ plt,
                         raised = Some e, result = Some res \<rparr>
                   | (plt, None) \<Rightarrow>
                       \<lparr> events = OptimizePulse args # cell18 res @ plt @ cell22,
                         raised = None, result = Some res \<rparr>)))"

subsection \<open>Notions used to state the properties\<close>

text \<open>The transpose of a matrix.\<close>

definition transpose_mat :: "matrix \<Rightarrow> matrix" where
  "transpose_mat m = map (\<lambda>j. map (\<lambda>r. r ! j) m) [0..<row_width m]"

text \<open>A matrix of shape \<open>(n, n)\<close>.\<close>

definition is_square_dim :: "nat \<Rightarrow> matrix \<Rightarrow> bool" where
  "is_square_dim n m = (length m = n \<and> list_all (\<lambda>r. length r = n) m)"

text \<open>The product \<^verbatim>\<open>calc_omega(2).dot(Ag)\<close>, written out.\<close>

definition omega_Ag :: matrix where
  "omega_Ag = [[0, 0, 0, 1], [0, 0, - 1, 0], [0, 1, 0, 0], [- 1, 0, 0, 0]]"

text \<open>What the optimiser promises about an amplitude array of its result: one row per
  timeslot and one column per control.\<close>

definition amps_shape_ok :: "ndarray \<Rightarrow> bool" where
  "amps_shape_ok A =
     (wf_ndarray A \<and> length (rows A) = nat n_ts \<and> int (ncols A) = n_ctrls)"

text \<open>\<open>ys\<close> is column \<open>j\<close> of \<open>A\<close> with its last value appended once.\<close>

definition appended_column :: "ndarray \<Rightarrow> nat \<Rightarrow> rat list \<Rightarrow> bool" where
  "appended_column A j ys =
     (length ys = length (rows A) + 1 \<and>
      take (length (rows A)) ys = map (\<lambda>r. r ! j) (rows A) \<and>
      ys ! length (rows A) = ys ! (length (rows A) - 1))"

definition is_optimize :: "event \<Rightarrow> bool" where
  "is_optimize e = (case e of OptimizePulse _ \<Rightarrow> True | _ \<Rightarrow> False)"

definition is_step :: "event \<Rightarrow> bool" where
  "is_step e = (case e of Step _ _ _ _ \<Rightarrow> True | _ \<Rightarrow> False)"

subsection \<open>Two optimisers\<close>

text \<open>
  An optimiser on which the notebook can be evaluated: it gives up at once and returns
  the initial all-zero pulse as the final one.
\<close>

definition zero_amps :: "optim_args \<Rightarrow> ndarray" where
  "zero_amps args =
     \<lparr> ncols = length (arg1 args),
       rows = replicate (nat (arg4 args)) (replicate (length (arg1 args)) 0) \<rparr>"

definition zero_pulse_result :: "optim_args \<Rightarrow> optim_result" where
  "zero_pulse_result args =
     \<lparr> stats = Stats [],
       evo_full_final = arg2 args,
       fid_err = 1,
       grad_norm_final = 0,
       termination_reason = ''Iteration or fidelity function call limit reached'',
       num_iter = 0,
       wall_time = 0,
       time = map (\<lambda>i. of_nat i * of_int (arg5 args) / of_int (arg4 args))
                [0..<nat (arg4 args) + 1],
       initial_amps = zero_amps args,
       final_amps = zero_amps args \<rparr>"

definition ref_optimize_pulse :: "optim_args \<Rightarrow> error + optim_result" where
  "ref_optimize_pulse args = Inr (zero_pulse_result args)"

definition ref_externals :: externals where
  "ref_externals = \<lparr> optimize_pulse = ref_optimize_pulse \<rparr>"

text \<open>An optimiser that raises \<open>e\<close>.\<close>

definition failing_externals :: "error \<Rightarrow> externals" where
  "failing_externals e = ref_externals \<lparr> optimize_pulse := (\<lambda>_. Inl e) \<rparr>"

section \<open>Properties\<close>

subsection \<open>Basic facts\<close>

lemma f_ext_eq: "f_ext = Inr ''Symplectic_n_ts1000_ptypeZERO.txt''"
  by code_simp

lemma n_ctrls_eq: "n_ctrls = 1"
  by (simp add: n_ctrls_def ctrls_def)

lemma py_range_n_ctrls: "py_range n_ctrls = [0]"
  by (simp add: py_range_def n_ctrls_eq)

text \<open>The call never passes \<^verbatim>\<open>None\<close> as \<^verbatim>\<open>out_file_ext\<close>: it passes the string that
  \<open>f_ext\<close> holds.\<close>

lemma out_file_ext_is_f_ext: "kw_out_file_ext (cell16_args fx) = Some fx"
  by (simp add: cell16_args_def)

subsection \<open>The matrix routines on the notebook's operands\<close>

lemma upt4: "[0..<4] = [0, 1, 2, 3]"
  by (simp add: upt_rec)

lemma calc_omega_2:
  "calc_omega 2 = [[0, 1, 0, 0], [- 1, 0, 0, 0], [0, 0, 0, 1], [0, 0, - 1, 0]]"
  by (simp add: calc_omega_def omega_entry_def upt4)

lemma Ag_eq: "Ag = [[0, 0, 1, 0], [0, 0, 0, 1], [1, 0, 0, 0], [0, 1, 0, 0]]"
  by (simp add: Ag_def a_def np_array_def)

lemma dot_omega_Ag: "dot (calc_omega 2) Ag = omega_Ag"
  by (simp add: calc_omega_2 dot_def Ag_eq omega_Ag_def row_width_def upt4)

text \<open>Shapes: the identity and the exponential are square.\<close>

lemma eye_square: "is_square_dim n (eye n)"
  by (simp add: is_square_dim_def eye_def list_all_iff)

lemma expm_square: "is_square_dim (length (data q)) (data (expm q))"
  by (simp add: is_square_dim_def expm_def list_all_iff)

text \<open>
  The powers of \<open>\<Omega> Ag\<close>. Its square is \<open>- I\<close>, so the powers cycle through \<open>I\<close>,
  \<open>\<Omega> Ag\<close>, \<open>- I\<close>, \<open>- \<Omega> Ag\<close>; with the coefficients of the cosine and sine series,
  \<open>(\<Omega> Ag) ^ k / k! = cos_coeff k I + sin_coeff k \<Omega> Ag\<close>.
\<close>

lemma dot_omega_Ag_step:
  "dot omega_Ag [[c, 0, 0, s], [0, c, - s, 0], [0, s, c, 0], [- s, 0, 0, c]]
     = [[- s, 0, 0, c], [0, - s, - c, 0], [0, c, - s, 0], [- c, 0, 0, - s]]"
  by (simp add: dot_def omega_Ag_def row_width_def upt4)

lemma mat_pow_omega_Ag:
  "mat_pow omega_Ag k =
     [[cos_coeff k * fact k, 0, 0, sin_coeff k * fact k],
      [0, cos_coeff k * fact k, - (sin_coeff k * fact k), 0],
      [0, sin_coeff k * fact k, cos_coeff k * fact k, 0],
      [- (sin_coeff k * fact k), 0, 0, cos_coeff k * fact k]]"
proof (induction k)
  case 0
  show ?case by (simp add: omega_Ag_def eye_def upt4)
next
  case (Suc k)
  have c: "cos_coeff (Suc k) * fact (Suc k) = - (sin_coeff k * fact k)"
    by (simp add: cos_coeff_Suc field_simps del: of_nat_Suc)
  have s: "sin_coeff (Suc k) * fact (Suc k) = cos_coeff k * fact k"
    by (simp add: sin_coeff_Suc field_simps del: of_nat_Suc)
  show ?case
    unfolding mat_pow.simps Suc.IH dot_omega_Ag_step c s by simp
qed

lemma cos_coeff_sums: "cos_coeff sums cos (1::real)"
  using cos_converges [of "1::real"] by simp

lemma sin_coeff_sums: "sin_coeff sums sin (1::real)"
  using sin_converges [of "1::real"] by simp

lemma neg_sin_coeff_sums: "(\<lambda>k. - sin_coeff k) sums - sin (1::real)"
  using sums_minus [OF sin_coeff_sums] .

lemma Sg_value:
  "data Sg = [[cos 1, 0, 0, sin 1], [0, cos 1, - sin 1, 0],
              [0, sin 1, cos 1, 0], [- sin 1, 0, 0, cos 1]]"
proof -
  have len: "length omega_Ag = 4" by (simp add: omega_Ag_def)
  have c: "(\<Sum>k. cos_coeff k) = cos (1::real)"
    using cos_coeff_sums by (simp add: sums_iff)
  have s: "(\<Sum>k. sin_coeff k) = sin (1::real)"
    using sin_coeff_sums by (simp add: sums_iff)
  have n: "(\<Sum>k. - sin_coeff k) = - sin (1::real)"
    using neg_sin_coeff_sums by (simp add: sums_iff)
  show ?thesis
    by (simp add: Sg_def expm_def dot_omega_Ag len upt4 exp_entry_def mat_pow_omega_Ag c s n)
qed

text \<open>Every entry of \<open>Sg\<close> is the limit of the exponential series of \<open>\<Omega> Ag\<close>, entry by
  entry.\<close>

lemma Sg_series:
  "list_all (\<lambda>i. list_all (\<lambda>j.
      (\<lambda>k. mat_pow (dot (calc_omega 2) Ag) k ! i ! j / fact k) sums (data Sg ! i ! j))
      [0..<4]) [0..<4]"
  by (simp add: upt4 Sg_value dot_omega_Ag mat_pow_omega_Ag
      cos_coeff_sums sin_coeff_sums neg_sin_coeff_sums)

lemma ref_amps_ok: "amps_shape_ok (zero_amps (cell16_args fx))"
  by (simp add: amps_shape_ok_def zero_amps_def wf_ndarray_def cell16_args_def list_all_iff
      n_ctrls_def)

subsection \<open>Events of the reporting and plotting cells\<close>

lemma step_loop_no_optimize: "filter is_optimize (fst (step_loop ax t amps js)) = []"
  by (induction js) (auto simp: is_optimize_def split: sum.splits prod.splits)

lemma cell18_no_optimize: "filter is_optimize (cell18 res) = []"
  by (simp add: cell18_def is_optimize_def)

lemma subplot_head_no_optimize: "filter is_optimize (subplot_head ax k t) = []"
  by (simp add: subplot_head_def is_optimize_def)

lemma cell20_no_optimize: "filter is_optimize (fst (cell20 res)) = []"
proof -
  have 1: "filter is_optimize ev = []" if "step_loop ax t amps js = (ev, r)" for ax t amps js ev r
    using step_loop_no_optimize [of ax t amps js] that by simp
  show ?thesis
    by (auto simp: cell20_def Let_def subplot_head_no_optimize is_optimize_def 1
        split: prod.splits option.splits)
qed

lemma cell22_no_optimize: "filter is_optimize cell22 = []"
  by (simp add: cell22_def is_optimize_def)

text \<open>A run in terms of the optimiser applied to the arguments of cell 16.\<close>

lemma notebook_run:
  "notebook ext =
     (case optimize_pulse ext (cell16_args ''Symplectic_n_ts1000_ptypeZERO.txt'') of
        Inl e \<Rightarrow>
          \<lparr> events = [OptimizePulse (cell16_args ''Symplectic_n_ts1000_ptypeZERO.txt'')],
            raised = Some e, result = None \<rparr>
      | Inr res \<Rightarrow>
          \<lparr> events = OptimizePulse (cell16_args ''Symplectic_n_ts1000_ptypeZERO.txt'') #
              cell18 res @ fst (cell20 res) @
              (case snd (cell20 res) of None \<Rightarrow> cell22 | Some e \<Rightarrow> []),
            raised = snd (cell20 res), result = Some res \<rparr>)"
proof (cases "optimize_pulse ext (cell16_args ''Symplectic_n_ts1000_ptypeZERO.txt'')")
  case (Inl e)
  then show ?thesis by (simp add: notebook_def f_ext_eq)
next
  case (Inr res)
  obtain plt r where c: "cell20 res = (plt, r)" by (cases "cell20 res")
  show ?thesis using Inr c by (cases r) (simp_all add: notebook_def f_ext_eq)
qed

text \<open>Whatever the optimiser does, the only optimisation call among the events of a run
  is the call of cell 16.\<close>

lemma notebook_optimize_events:
  "filter is_optimize (events (notebook ext)) =
     [OptimizePulse (cell16_args ''Symplectic_n_ts1000_ptypeZERO.txt'')]"
proof (cases "optimize_pulse ext (cell16_args ''Symplectic_n_ts1000_ptypeZERO.txt'')")
  case (Inl e)
  then show ?thesis by (simp add: notebook_run is_optimize_def)
next
  case (Inr res)
  have "filter is_optimize (case snd (cell20 res) of None \<Rightarrow> cell22 | Some e \<Rightarrow> []) = []"
    by (simp add: cell22_no_optimize split: option.splits)
  then show ?thesis
    using Inr by (simp add: notebook_run cell18_no_optimize cell20_no_optimize is_optimize_def)
qed

subsection \<open>Indexing\<close>

lemma get_col_in_range:
  "0 \<le> j \<Longrightarrow> j < int (ncols A) \<Longrightarrow> get_col A j = Inr (map (\<lambda>r. r ! nat j) (rows A))"
  by (simp add: get_col_def norm_index_def)

lemma get_item_last:
  "rows A \<noteq> [] \<Longrightarrow> 0 \<le> j \<Longrightarrow> j < int (ncols A) \<Longrightarrow>
   get_item A (- 1) j = Inr (last (rows A) ! nat j)"
  by (cases "rows A" rule: rev_cases) (simp_all add: get_item_def norm_index_def nth_append)

lemma step_amps_value:
  "rows A \<noteq> [] \<Longrightarrow> 0 \<le> j \<Longrightarrow> j < int (ncols A) \<Longrightarrow>
   step_amps A j = Inr (map (\<lambda>r. r ! nat j) (rows A) @ [last (rows A) ! nat j])"
  by (simp add: step_amps_def get_col_in_range get_item_last hstack_def)

text \<open>On an array with no row, \<^verbatim>\<open>amps[-1, j]\<close> raises.\<close>

lemma step_amps_empty: "rows A = [] \<Longrightarrow> step_amps A j = Inl IndexError"
  by (auto simp: step_amps_def get_col_def get_item_def norm_index_def Let_def
      split: sum.splits if_splits)

lemma amps_step:
  assumes "amps_shape_ok A"
  shows "step_amps A 0 = Inr (map (\<lambda>r. r ! 0) (rows A) @ [last (rows A) ! 0])"
proof -
  have "length (rows A) = 1000" using assms by (simp add: amps_shape_ok_def n_ts_def)
  then have ne: "rows A \<noteq> []" by auto
  have "0 < int (ncols A)" using assms by (simp add: amps_shape_ok_def n_ctrls_eq)
  with ne show ?thesis using step_amps_value [of A 0] by simp
qed

lemma cell20_steps:
  assumes "amps_shape_ok (initial_amps res)" and "amps_shape_ok (final_amps res)"
  shows "cell20 res =
    (Figure # subplot_head Ax1 1 ''Initial Control amps'' @
       [Step Ax1 (time res)
          (map (\<lambda>r. r ! 0) (rows (initial_amps res)) @ [last (rows (initial_amps res)) ! 0]) ''post''] @
       subplot_head Ax2 2 ''Optimised Control Amplitudes'' @
       [Step Ax2 (time res)
          (map (\<lambda>r. r ! 0) (rows (final_amps res)) @ [last (rows (final_amps res)) ! 0]) ''post''] @
       [TightLayout, Show], None)"
  by (simp add: cell20_def py_range_n_ctrls amps_step [OF assms(1)] amps_step [OF assms(2)])

lemma appended_columnI:
  assumes "rows A \<noteq> []"
  shows "appended_column A j (map (\<lambda>r. r ! j) (rows A) @ [last (rows A) ! j])"
proof -
  let ?n = "length (rows A)"
  have "?n - 1 < ?n" using assms by (cases "rows A") simp_all
  then have "(map (\<lambda>r. r ! j) (rows A) @ [last (rows A) ! j]) ! (?n - 1) = rows A ! (?n - 1) ! j"
    by (simp add: nth_append)
  also have "\<dots> = last (rows A) ! j" using assms by (simp add: last_conv_nth)
  finally show ?thesis by (simp add: appended_column_def nth_append)
qed

section \<open>The claims\<close>

text \<open>
  Claim C1. The target operator \<open>Sg\<close> is the matrix exponential of the product of the
  symplectic structure matrix for two oscillators and the target generator \<open>Ag\<close>,
  \<open>Sg = expm(calc_omega(2) . Ag)\<close>, where \<open>Ag\<close> is the fixed \<open>4 \<times> 4\<close> coupling matrix
  built with \<open>a = 1\<close>. Written out: \<open>calc_omega(2)\<close> is the symplectic form \<open>\<Omega>\<close> of two
  oscillators, the product \<open>\<Omega> Ag\<close> is the matrix below, every entry of \<open>Sg\<close> is the limit
  of the exponential series of \<open>\<Omega> Ag\<close> at that entry, and \<open>Sg\<close> is the rotation-like
  matrix with entries \<open>cos 1\<close> and \<open>\<plusminus> sin 1\<close> (0.5403 and 0.8415 in the recorded output
  of the notebook).
\<close>

theorem Sg_expm_omega_Ag:
  "Sg = expm (Qobj (dot (calc_omega 2) Ag)) \<and>
   a = 1 \<and>
   Ag = [[0, 0, 1, 0], [0, 0, 0, 1], [1, 0, 0, 0], [0, 1, 0, 0]] \<and>
   calc_omega 2 = [[0, 1, 0, 0], [- 1, 0, 0, 0], [0, 0, 0, 1], [0, 0, - 1, 0]] \<and>
   dot (calc_omega 2) Ag = [[0, 0, 0, 1], [0, 0, - 1, 0], [0, 1, 0, 0], [- 1, 0, 0, 0]] \<and>
   list_all (\<lambda>i. list_all (\<lambda>j.
      (\<lambda>k. mat_pow (dot (calc_omega 2) Ag) k ! i ! j / fact k) sums (data Sg ! i ! j))
      [0..<4]) [0..<4] \<and>
   data Sg = [[cos 1, 0, 0, sin 1], [0, cos 1, - sin 1, 0],
              [0, sin 1, cos 1, 0], [- sin 1, 0, 0, cos 1]]"
proof -
  have 1: "Sg = expm (Qobj (dot (calc_omega 2) Ag))" by (simp add: Sg_def)
  have 2: "a = 1" by (simp add: a_def)
  have 3: "dot (calc_omega 2) Ag = [[0, 0, 0, 1], [0, 0, - 1, 0], [0, 1, 0, 0], [- 1, 0, 0, 0]]"
    by (simp add: dot_omega_Ag omega_Ag_def)
  from 1 2 Ag_eq calc_omega_2 3 Sg_series Sg_value show ?thesis by (intro conjI)
qed

text \<open>
  Claim C2. In every run of the notebook, whatever the optimiser does, the optimiser is
  called exactly once, with the drift generator \<open>A0\<close>, the list \<open>[Ac]\<close>, the operator
  \<^verbatim>\<open>identity(4)\<close> and the target \<open>Sg\<close> as its first four arguments, and no other
  optimisation call is made. The call is synchronous: it is the first event of the run,
  and what the run does next is computed from what the optimiser, applied to these
  arguments, has returned. The value bound to \<^verbatim>\<open>result\<close> is that return value, and an
  error of that application is the error of the run.
\<close>

theorem optimize_pulse_called_once:
  "filter is_optimize (events (notebook ext)) =
     [OptimizePulse (cell16_args ''Symplectic_n_ts1000_ptypeZERO.txt'')] \<and>
   arg0 (cell16_args ''Symplectic_n_ts1000_ptypeZERO.txt'') = A0 \<and>
   arg1 (cell16_args ''Symplectic_n_ts1000_ptypeZERO.txt'') = [Ac] \<and>
   arg2 (cell16_args ''Symplectic_n_ts1000_ptypeZERO.txt'') = identity 4 \<and>
   arg3 (cell16_args ''Symplectic_n_ts1000_ptypeZERO.txt'') = Sg \<and>
   result (notebook ext) =
     (case optimize_pulse ext (cell16_args ''Symplectic_n_ts1000_ptypeZERO.txt'') of
        Inl e \<Rightarrow> None | Inr res \<Rightarrow> Some res) \<and>
   raised (notebook ext) =
     (case optimize_pulse ext (cell16_args ''Symplectic_n_ts1000_ptypeZERO.txt'') of
        Inl e \<Rightarrow> Some e | Inr res \<Rightarrow> snd (cell20 res)) \<and>
   events (notebook ext) =
     OptimizePulse (cell16_args ''Symplectic_n_ts1000_ptypeZERO.txt'') #
     (case optimize_pulse ext (cell16_args ''Symplectic_n_ts1000_ptypeZERO.txt'') of
        Inl e \<Rightarrow> []
      | Inr res \<Rightarrow>
          cell18 res @ fst (cell20 res) @
          (case snd (cell20 res) of None \<Rightarrow> cell22 | Some e \<Rightarrow> []))"
proof -
  let ?args = "cell16_args ''Symplectic_n_ts1000_ptypeZERO.txt''"
  have once: "filter is_optimize (events (notebook ext)) = [OptimizePulse ?args]"
    by (rule notebook_optimize_events)
  have args: "arg0 ?args = A0 \<and> arg1 ?args = [Ac] \<and> arg2 ?args = identity 4 \<and> arg3 ?args = Sg"
    by (simp add: cell16_args_def ctrls_def initial_def)
  have res: "result (notebook ext) =
      (case optimize_pulse ext ?args of Inl e \<Rightarrow> None | Inr res \<Rightarrow> Some res)"
    by (simp add: notebook_run split: sum.splits)
  have err: "raised (notebook ext) =
      (case optimize_pulse ext ?args of Inl e \<Rightarrow> Some e | Inr res \<Rightarrow> snd (cell20 res))"
    by (simp add: notebook_run split: sum.splits)
  have evs: "events (notebook ext) =
      OptimizePulse ?args #
      (case optimize_pulse ext ?args of
         Inl e \<Rightarrow> []
       | Inr res \<Rightarrow>
           cell18 res @ fst (cell20 res) @
           (case snd (cell20 res) of None \<Rightarrow> cell22 | Some e \<Rightarrow> []))"
    by (simp add: notebook_run split: sum.splits)
  from once args res err evs show ?thesis by (intro conjI) simp_all
qed

text \<open>
  Claim C3. The scalar settings a run passes to the optimiser are the fixed constants.
  There is an argument record with 1000 timeslots and evolution time 10 (fifth and
  sixth positional argument), \<^verbatim>\<open>fid_err_targ = 1e-10\<close>, \<^verbatim>\<open>min_grad = 1e-20\<close>,
  \<^verbatim>\<open>max_iter = 500\<close>, \<^verbatim>\<open>max_wall_time = 30\<close> and initial pulse type \<^verbatim>\<open>'ZERO'\<close> such
  that the one optimisation call of the run is made with it and the outcome of the run
  is that of the optimiser applied to it: its return value is what \<^verbatim>\<open>result\<close> is bound
  to, and its error is the error of the run.
\<close>

theorem optimize_pulse_scalars:
  "\<exists>args.
     arg4 args = 1000 \<and>
     arg5 args = 10 \<and>
     kw_fid_err_targ args = 1 / 10 ^ 10 \<and>
     kw_min_grad args = 1 / 10 ^ 20 \<and>
     kw_max_iter args = 500 \<and>
     kw_max_wall_time args = 30 \<and>
     kw_init_pulse_type args = ''ZERO'' \<and>
     filter is_optimize (events (notebook ext)) = [OptimizePulse args] \<and>
     result (notebook ext) =
       (case optimize_pulse ext args of Inl e \<Rightarrow> None | Inr res \<Rightarrow> Some res) \<and>
     raised (notebook ext) =
       (case optimize_pulse ext args of Inl e \<Rightarrow> Some e | Inr res \<Rightarrow> snd (cell20 res))"
proof -
  let ?args = "cell16_args ''Symplectic_n_ts1000_ptypeZERO.txt''"
  have vals: "arg4 ?args = 1000 \<and> arg5 ?args = 10 \<and>
      kw_fid_err_targ ?args = 1 / 10 ^ 10 \<and> kw_min_grad ?args = 1 / 10 ^ 20 \<and>
      kw_max_iter ?args = 500 \<and> kw_max_wall_time ?args = 30 \<and>
      kw_init_pulse_type ?args = ''ZERO''"
    by (simp add: cell16_args_def n_ts_def evo_time_def fid_err_targ_def min_grad_def
        max_iter_def max_wall_time_def p_type_def)
  have call: "filter is_optimize (events (notebook ext)) = [OptimizePulse ?args]"
    by (rule notebook_optimize_events)
  have res: "result (notebook ext) =
      (case optimize_pulse ext ?args of Inl e \<Rightarrow> None | Inr res \<Rightarrow> Some res)"
    by (simp add: notebook_run split: sum.splits)
  have err: "raised (notebook ext) =
      (case optimize_pulse ext ?args of Inl e \<Rightarrow> Some e | Inr res \<Rightarrow> snd (cell20 res))"
    by (simp add: notebook_run split: sum.splits)
  from vals call res err show ?thesis by blast
qed

text \<open>
  Claim C4. The file extension is a function of the example name, the number of
  timeslots and the pulse type alone: formatting the template with \<^verbatim>\<open>'Symplectic'\<close>,
  1000 and \<^verbatim>\<open>'ZERO'\<close> gives \<^verbatim>\<open>'Symplectic_n_ts1000_ptypeZERO.txt'\<close>, and this is the
  value of \<open>f_ext\<close> in the notebook.
\<close>

theorem f_ext_deterministic:
  "py_format ''{}_n_ts{}_ptype{}.txt'' [ArgStr ''Symplectic'', ArgInt 1000, ArgStr ''ZERO'']
     = Inr ''Symplectic_n_ts1000_ptypeZERO.txt'' \<and>
   f_ext = Inr ''Symplectic_n_ts1000_ptypeZERO.txt''"
  by code_simp

text \<open>
  Claim C5. Every matrix the notebook builds (the drift \<open>A0\<close>, the control \<open>Ac\<close>, the
  initial operator \<^verbatim>\<open>identity(4)\<close>, the target generator \<open>Ag\<close> and the target operator
  \<open>Sg\<close>) is square of the same dimension 4, and so are the four operands of the
  optimiser call.
\<close>

theorem operands_square_dim_4:
  "is_square_dim 4 (data A0) \<and> is_square_dim 4 (data Ac) \<and>
   is_square_dim 4 (data initial) \<and> is_square_dim 4 Ag \<and>
   is_square_dim 4 (data Sg) \<and>
   is_square_dim 4 (data (arg0 (cell16_args fx))) \<and>
   list_all (\<lambda>c. is_square_dim 4 (data c)) (arg1 (cell16_args fx)) \<and>
   is_square_dim 4 (data (arg2 (cell16_args fx))) \<and>
   is_square_dim 4 (data (arg3 (cell16_args fx)))"
proof -
  have A0: "is_square_dim 4 (data A0)" by (simp add: is_square_dim_def A0_def np_array_def)
  have Ac: "is_square_dim 4 (data Ac)" by (simp add: is_square_dim_def Ac_def np_array_def)
  have Ag: "is_square_dim 4 Ag" by (simp add: is_square_dim_def Ag_eq)
  have I: "is_square_dim 4 (data initial)" by (simp add: initial_def identity_def eye_square)
  have "length (data (Qobj (dot (calc_omega 2) Ag))) = 4"
    by (simp add: dot_omega_Ag omega_Ag_def)
  then have Sg: "is_square_dim 4 (data Sg)"
    using expm_square [of "Qobj (dot (calc_omega 2) Ag)"] by (simp add: Sg_def)
  from A0 Ac I Ag Sg show ?thesis by (simp add: cell16_args_def ctrls_def)
qed

text \<open>
  Claim C7. The notebook handles no failure: when the optimiser raises an error \<open>e\<close>,
  the run ends there with that same error. The call is its only event, nothing runs
  after it, and the variable \<^verbatim>\<open>result\<close> stays unbound.
\<close>

theorem optimizer_error_propagates:
  assumes "optimize_pulse ext (cell16_args ''Symplectic_n_ts1000_ptypeZERO.txt'') = Inl e"
  shows "notebook ext =
           \<lparr> events = [OptimizePulse (cell16_args ''Symplectic_n_ts1000_ptypeZERO.txt'')],
             raised = Some e, result = None \<rparr>"
  using assms by (simp add: notebook_def f_ext_eq)

theorem optimizer_error_propagates_witness:
  "optimize_pulse (failing_externals (LibraryError ''Dynamics not initialised''))
      (cell16_args ''Symplectic_n_ts1000_ptypeZERO.txt'')
     = Inl (LibraryError ''Dynamics not initialised'') \<and>
   notebook (failing_externals (LibraryError ''Dynamics not initialised'')) =
     \<lparr> events = [OptimizePulse (cell16_args ''Symplectic_n_ts1000_ptypeZERO.txt'')],
       raised = Some (LibraryError ''Dynamics not initialised''), result = None \<rparr>"
proof -
  let ?ext = "failing_externals (LibraryError ''Dynamics not initialised'')"
  have h: "optimize_pulse ?ext (cell16_args ''Symplectic_n_ts1000_ptypeZERO.txt'')
             = Inl (LibraryError ''Dynamics not initialised'')"
    by (simp add: failing_externals_def)
  from h optimizer_error_propagates [OF h] show ?thesis by (rule conjI)
qed

text \<open>
  Claim C8. Each generator matrix of the notebook is symmetric: the drift \<open>A0\<close>, the
  control \<open>Ac\<close> and the target generator \<open>Ag\<close> equal their transposes.
\<close>

theorem generators_symmetric:
  "transpose_mat (data A0) = data A0 \<and>
   transpose_mat (data Ac) = data Ac \<and>
   transpose_mat Ag = Ag"
  by code_simp

text \<open>
  Claim C9. The control list has exactly one generator, so \<open>n_ctrls = len(ctrls) = 1\<close>
  and the index \<open>j\<close> of both plotting loops, drawn from \<^verbatim>\<open>range(n_ctrls)\<close>, only takes
  the value 0; for an amplitude array with \<open>n_ctrls\<close> columns the indexing
  \<^verbatim>\<open>amps[:, j]\<close> is then in bounds: it returns the column and raises no
  \<^verbatim>\<open>IndexError\<close>.
\<close>

theorem column_index_in_bounds:
  "n_ctrls = int (length ctrls) \<and> n_ctrls = 1 \<and> py_range n_ctrls = [0] \<and>
   (\<forall>A j. wf_ndarray A \<and> int (ncols A) = n_ctrls \<and> j \<in> set (py_range n_ctrls) \<longrightarrow>
      j = 0 \<and> get_col A j = Inr (map (\<lambda>r. r ! 0) (rows A)))"
proof -
  have cols: "j = 0 \<and> get_col A j = Inr (map (\<lambda>r. r ! 0) (rows A))"
    if "int (ncols A) = n_ctrls" and "j \<in> set (py_range n_ctrls)" for A j
  proof -
    have j: "j = 0" using that(2) by (simp add: py_range_n_ctrls)
    have "0 < int (ncols A)" using that(1) by (simp add: n_ctrls_eq)
    then show ?thesis using get_col_in_range [of 0 A] j by simp
  qed
  have len: "n_ctrls = int (length ctrls)" by (simp add: n_ctrls_def)
  from len n_ctrls_eq py_range_n_ctrls cols show ?thesis by blast
qed

theorem column_index_in_bounds_witness:
  "wf_ndarray \<lparr> ncols = 1, rows = [[3], [5]] \<rparr> \<and>
   int (ncols \<lparr> ncols = 1, rows = [[3], [5]] \<rparr>) = n_ctrls \<and>
   0 \<in> set (py_range n_ctrls) \<and>
   get_col \<lparr> ncols = 1, rows = [[3], [5]] \<rparr> 0 = Inr [3, 5]"
proof -
  let ?A = "\<lparr> ncols = 1, rows = [[3], [5]] \<rparr> :: ndarray"
  have h: "wf_ndarray ?A \<and> int (ncols ?A) = n_ctrls \<and> 0 \<in> set (py_range n_ctrls)"
    by (simp add: wf_ndarray_def n_ctrls_def ctrls_def py_range_def)
  from column_index_in_bounds have
    "wf_ndarray ?A \<and> int (ncols ?A) = n_ctrls \<and> 0 \<in> set (py_range n_ctrls) \<longrightarrow>
       (0::int) = 0 \<and> get_col ?A 0 = Inr (map (\<lambda>r. r ! 0) (rows ?A))"
    by blast
  with h have "get_col ?A 0 = Inr (map (\<lambda>r. r ! 0) (rows ?A))" by blast
  then have g: "get_col ?A 0 = Inr [3, 5]" by simp
  from h g show ?thesis by blast
qed

text \<open>
  Claim C10. When the optimiser returns a result whose amplitude arrays have one row per
  timeslot and one column per control, and whose \<^verbatim>\<open>time\<close> has \<open>n_ts + 1\<close> entries, the
  run plots exactly two step curves, one per axis, for the control index 0. The
  amplitude sequence of each is the column of its array with the final value appended
  once: its length is the number of rows plus one, that is \<open>n_ts + 1\<close>, the length of
  \<^verbatim>\<open>result.time\<close>; its first \<open>n_ts\<close> entries are the column; its last two entries are
  equal. No exception is raised.
\<close>

theorem step_sequence_is_column_plus_last:
  assumes "optimize_pulse ext (cell16_args ''Symplectic_n_ts1000_ptypeZERO.txt'') = Inr res"
    and "amps_shape_ok (initial_amps res)" and "amps_shape_ok (final_amps res)"
    and "length (time res) = nat n_ts + 1"
  shows "\<exists>y1 y2.
     filter is_step (events (notebook ext)) =
       [Step Ax1 (time res) y1 ''post'', Step Ax2 (time res) y2 ''post''] \<and>
     appended_column (initial_amps res) 0 y1 \<and> appended_column (final_amps res) 0 y2 \<and>
     length y1 = nat n_ts + 1 \<and> length y2 = nat n_ts + 1 \<and>
     length y1 = length (time res) \<and> length y2 = length (time res) \<and>
     raised (notebook ext) = None"
proof -
  let ?y1 = "map (\<lambda>r. r ! 0) (rows (initial_amps res)) @ [last (rows (initial_amps res)) ! 0]"
  let ?y2 = "map (\<lambda>r. r ! 0) (rows (final_amps res)) @ [last (rows (final_amps res)) ! 0]"
  have l1: "length (rows (initial_amps res)) = nat n_ts"
    and l2: "length (rows (final_amps res)) = nat n_ts"
    using assms(2,3) by (simp_all add: amps_shape_ok_def)
  have ne: "rows (initial_amps res) \<noteq> []" "rows (final_amps res) \<noteq> []"
    using l1 l2 by (auto simp: n_ts_def)
  have nb: "notebook ext =
      \<lparr> events = OptimizePulse (cell16_args ''Symplectic_n_ts1000_ptypeZERO.txt'') #
                  cell18 res @ fst (cell20 res) @ cell22,
        raised = None, result = Some res \<rparr>"
    by (simp add: notebook_def f_ext_eq assms(1) cell20_steps [OF assms(2,3)])
  have ev: "filter is_step (events (notebook ext)) =
       [Step Ax1 (time res) ?y1 ''post'', Step Ax2 (time res) ?y2 ''post'']"
    by (simp add: nb cell20_steps [OF assms(2,3)])
       (simp add: is_step_def cell18_def cell22_def subplot_head_def)
  have a1: "appended_column (initial_amps res) 0 ?y1" using ne(1) by (rule appended_columnI)
  have a2: "appended_column (final_amps res) 0 ?y2" using ne(2) by (rule appended_columnI)
  have len: "length ?y1 = nat n_ts + 1" "length ?y2 = nat n_ts + 1" using l1 l2 by simp_all
  have r: "raised (notebook ext) = None" by (simp add: nb)
  have t: "length ?y1 = length (time res)" "length ?y2 = length (time res)"
    using len assms(4) by simp_all
  from ev a1 a2 len t r show ?thesis by blast
qed

theorem step_sequence_is_column_plus_last_witness:
  "optimize_pulse ref_externals (cell16_args ''Symplectic_n_ts1000_ptypeZERO.txt'')
     = Inr (zero_pulse_result (cell16_args ''Symplectic_n_ts1000_ptypeZERO.txt'')) \<and>
   amps_shape_ok (initial_amps
     (zero_pulse_result (cell16_args ''Symplectic_n_ts1000_ptypeZERO.txt''))) \<and>
   amps_shape_ok (final_amps
     (zero_pulse_result (cell16_args ''Symplectic_n_ts1000_ptypeZERO.txt''))) \<and>
   length (time
     (zero_pulse_result (cell16_args ''Symplectic_n_ts1000_ptypeZERO.txt'')))
     = nat n_ts + 1 \<and>
   (\<exists>y1 y2.
     filter is_step (events (notebook ref_externals)) =
       [Step Ax1 (time (zero_pulse_result
            (cell16_args ''Symplectic_n_ts1000_ptypeZERO.txt''))) y1 ''post'',
        Step Ax2 (time (zero_pulse_result
            (cell16_args ''Symplectic_n_ts1000_ptypeZERO.txt''))) y2 ''post''] \<and>
     appended_column (initial_amps (zero_pulse_result
            (cell16_args ''Symplectic_n_ts1000_ptypeZERO.txt''))) 0 y1 \<and>
     appended_column (final_amps (zero_pulse_result
            (cell16_args ''Symplectic_n_ts1000_ptypeZERO.txt''))) 0 y2 \<and>
     length y1 = nat n_ts + 1 \<and> length y2 = nat n_ts + 1 \<and>
     length y1 = length (time (zero_pulse_result
            (cell16_args ''Symplectic_n_ts1000_ptypeZERO.txt''))) \<and>
     length y2 = length (time (zero_pulse_result
            (cell16_args ''Symplectic_n_ts1000_ptypeZERO.txt''))) \<and>
     raised (notebook ref_externals) = None)"
proof -
  let ?args = "cell16_args ''Symplectic_n_ts1000_ptypeZERO.txt''"
  let ?res = "zero_pulse_result ?args"
  have h1: "optimize_pulse ref_externals ?args = Inr ?res"
    by (simp add: ref_externals_def ref_optimize_pulse_def)
  have h2: "amps_shape_ok (initial_amps ?res)"
    by (simp add: zero_pulse_result_def ref_amps_ok)
  have h3: "amps_shape_ok (final_amps ?res)"
    by (simp add: zero_pulse_result_def ref_amps_ok)
  have h4: "length (time ?res) = nat n_ts + 1"
    by (simp add: zero_pulse_result_def cell16_args_def)
  from h1 h2 h3 h4 step_sequence_is_column_plus_last [OF h1 h2 h3 h4]
  show ?thesis by (intro conjI)
qed

end
